theory Spec2Isabelle
  imports
    Main
    "HOL-Library.Finite_Map"
    "HOL-Library.Char_ord"
    "HOL-Library.List_Lexorder"
begin

section \<open>Configuration maps and their comparison (package util)\<close>

text \<open>
  A Go \<^verbatim>\<open>map[string]string\<close> is a finite map from byte strings to byte strings.
  Indexing a map with a key it does not hold yields the zero value, the empty string.
\<close>

type_synonym config = "(string, string) fmap"

definition config_index :: "config \<Rightarrow> string \<Rightarrow> string" where
  "config_index c k = (case fmlookup c k of None \<Rightarrow> [] | Some v \<Rightarrow> v)"

text \<open>
  The loop \<^verbatim>\<open>for k, v := range a\<close> of \<^verbatim>\<open>ConfigsEqual\<close>, over the entries of \<open>a\<close> in the
  order the runtime visits them, leaving with \<open>false\<close> at the first entry that \<open>b\<close>
  lacks or holds with another value.
\<close>

fun ConfigsEqual_range :: "(string \<times> string) list \<Rightarrow> config \<Rightarrow> bool" where
  "ConfigsEqual_range [] b = True"
| "ConfigsEqual_range ((k, v) # rest) b =
     (case fmlookup b k of
        None \<Rightarrow> False
      | Some bVal \<Rightarrow> if bVal \<noteq> v then False else ConfigsEqual_range rest b)"

text \<open>
  Go leaves the iteration order of a map unspecified; the model visits the entries in
  key order. Lemma \<open>ConfigsEqual_range_order\<close> below shows that the order is immaterial.
\<close>

definition ConfigsEqual :: "config \<Rightarrow> config \<Rightarrow> bool" where
  "ConfigsEqual a b =
     (if fcard (fmdom a) \<noteq> fcard (fmdom b) then False
      else ConfigsEqual_range (sorted_list_of_fmap a) b)"

section \<open>The resource record (package v1alpha1)\<close>

record Condition =
  cond_type :: string
  cond_status :: string
  cond_reason :: string
  cond_message :: string

record DebeziumConnectorSpec =
  DebeziumHost :: string
  Config :: config

record DebeziumConnectorStatus =
  Conditions :: "Condition list"

text \<open>
  Of the object metadata the controller reads the name, the deletion timestamp and the
  finalizers. A deletion timestamp is a pointer to a time: \<open>None\<close> is the nil pointer and
  \<open>Some 0\<close> the zero instant, both of which \<^verbatim>\<open>IsZero\<close> accepts.
\<close>

record ObjectMeta =
  Name :: string
  Namespace :: string
  DeletionTimestamp :: "nat option"
  Finalizers :: "string list"

record DebeziumConnector =
  Meta :: ObjectMeta
  Spec :: DebeziumConnectorSpec
  Status :: DebeziumConnectorStatus

definition IsZero :: "nat option \<Rightarrow> bool" where
  "IsZero t = (case t of None \<Rightarrow> True | Some i \<Rightarrow> i = 0)"

section \<open>Errors, formatting and the outside world\<close>

text \<open>
  A Go error, as the controller sees it, is either a not-found status of the object store
  or any other error; the model keeps the message of both.
\<close>

datatype go_error =
    StatusNotFound string
  | Err string

fun Error_text :: "go_error \<Rightarrow> string" where
  "Error_text (StatusNotFound m) = m"
| "Error_text (Err m) = m"

fun IsNotFound :: "go_error \<Rightarrow> bool" where
  "IsNotFound (StatusNotFound m) = True"
| "IsNotFound (Err m) = False"

text \<open>The verb \<^verbatim>\<open>%d\<close> of \<^verbatim>\<open>fmt\<close>: a decimal numeral, with a sign when negative.\<close>

definition digit_char :: "nat \<Rightarrow> char" where
  "digit_char d = ''0123456789'' ! d"

fun fmt_nat :: "nat \<Rightarrow> string" where
  "fmt_nat n =
     (if n < 10 then [digit_char n]
      else fmt_nat (n div 10) @ [digit_char (n mod 10)])"

declare fmt_nat.simps [simp del]

definition fmt_d :: "int \<Rightarrow> string" where
  "fmt_d i = (if i < 0 then CHR ''-'' # fmt_nat (nat (- i)) else fmt_nat (nat i))"

datatype http_method = GET | POST | PUT | DELETE

text \<open>
  A request body is JSON made by \<^verbatim>\<open>json.Marshal\<close> from a configuration map
  (\<open>ConfigJSON\<close>) or from the object \<^verbatim>\<open>{"name": ..., "config": ...}\<close> (\<open>ConnectorJSON\<close>).
  The model keeps the value that is marshalled. Marshalling strings and maps of strings
  cannot fail, so the error branch after \<^verbatim>\<open>json.Marshal\<close> is never taken.
\<close>

datatype payload = NoBody | ConfigJSON config | ConnectorJSON string config

record http_request =
  Method :: http_method
  URL :: string
  ContentType :: "string option"
  ReqBody :: payload

text \<open>
  A response has a status code and a body; \<open>BodyErr\<close> is the error of \<^verbatim>\<open>io.ReadAll\<close> on
  that body, if any, in which case \<open>Body\<close> is what was read before it.
\<close>

record http_response =
  StatusCode :: int
  Body :: string
  BodyErr :: "go_error option"

text \<open>
  The HTTP client either fails to build the request (\<^verbatim>\<open>http.NewRequest\<close>), fails to
  send it or to receive an answer, or returns a response.
\<close>

datatype http_outcome =
    RequestError go_error
  | TransportError go_error
  | Response http_response

text \<open>
  What a pass does to the outside world, in order: requests it attempts through the HTTP client
  and calls of \<^verbatim>\<open>r.Update\<close> on the object store, with whether the store accepted the object.
\<close>

datatype event =
    HttpCall http_request
  | K8sUpdate DebeziumConnector bool

fun is_http :: "event \<Rightarrow> bool" where
  "is_http (HttpCall rq) = True"
| "is_http (K8sUpdate d ok) = False"

fun http_calls :: "event list \<Rightarrow> http_request list" where
  "http_calls [] = []"
| "http_calls (HttpCall rq # es) = rq # http_calls es"
| "http_calls (K8sUpdate d ok # es) = http_calls es"

fun k8s_updates :: "event list \<Rightarrow> (DebeziumConnector \<times> bool) list" where
  "k8s_updates [] = []"
| "k8s_updates (HttpCall rq # es) = k8s_updates es"
| "k8s_updates (K8sUpdate d ok # es) = (d, ok) # k8s_updates es"

text \<open>
  The collaborators of the controller and of the webhook, which are not code of this
  repository, are parameters: the object store (\<^verbatim>\<open>r.Get\<close>, \<^verbatim>\<open>r.Update\<close>), the HTTP client,
  and the JSON decoders: \<open>decode_config\<close> reads a configuration map from the body of a
  response as it streams in (so it sees a failure of the stream, too), \<open>unmarshal_errors\<close>
  reads the \<^verbatim>\<open>errors\<close> field from the bytes of a validation response. The client's
  time-out of ten seconds is a matter of real time and is not modelled.
\<close>

record env =
  k8s_get :: "string \<times> string \<Rightarrow> go_error + DebeziumConnector"
  k8s_update :: "DebeziumConnector \<Rightarrow> go_error option"
  http_do :: "http_request \<Rightarrow> http_outcome"
  decode_config :: "http_response \<Rightarrow> go_error + config"
  unmarshal_errors :: "string \<Rightarrow> go_error + config"

definition Update :: "env \<Rightarrow> DebeziumConnector \<Rightarrow> go_error option \<times> event list" where
  "Update r dbc = (k8s_update r dbc, [K8sUpdate dbc (k8s_update r dbc = None)])"

section \<open>Finalizers (package controllerutil)\<close>

text \<open>
  The finalizer helpers belong to the controller runtime, not to this repository. They
  are written out as that library has them: \<^verbatim>\<open>ContainsFinalizer\<close> looks the name up in the
  list, \<^verbatim>\<open>AddFinalizer\<close> appends it unless it is there, \<^verbatim>\<open>RemoveFinalizer\<close> drops every
  occurrence.
\<close>

definition debeziumFinalizer :: string where
  "debeziumFinalizer = ''debeziumconnector.finalizers.api.debezium''"

definition ContainsFinalizer :: "DebeziumConnector \<Rightarrow> string \<Rightarrow> bool" where
  "ContainsFinalizer dbc finalizer = (finalizer \<in> set (Finalizers (Meta dbc)))"

definition AddFinalizer :: "DebeziumConnector \<Rightarrow> string \<Rightarrow> DebeziumConnector" where
  "AddFinalizer dbc finalizer =
     (if finalizer \<in> set (Finalizers (Meta dbc)) then dbc
      else dbc\<lparr>Meta := (Meta dbc)\<lparr>Finalizers := Finalizers (Meta dbc) @ [finalizer]\<rparr>\<rparr>)"

definition RemoveFinalizer :: "DebeziumConnector \<Rightarrow> string \<Rightarrow> DebeziumConnector" where
  "RemoveFinalizer dbc finalizer =
     dbc\<lparr>Meta := (Meta dbc)\<lparr>Finalizers := filter (\<lambda>f. f \<noteq> finalizer) (Finalizers (Meta dbc))\<rparr>\<rparr>"

section \<open>The HTTP operations of the controller\<close>

definition connectorExists_request :: "string \<Rightarrow> string \<Rightarrow> http_request" where
  "connectorExists_request host name =
     \<lparr>Method = GET, URL = host @ ''/connectors/'' @ name, ContentType = None, ReqBody = NoBody\<rparr>"

definition connectorExists :: "env \<Rightarrow> string \<Rightarrow> string \<Rightarrow> (go_error + bool) \<times> event list" where
  "connectorExists r host name =
     (let rq = connectorExists_request host name in
      (case http_do r rq of
         RequestError err \<Rightarrow> Inl err
       | TransportError err \<Rightarrow> Inl err
       | Response resp \<Rightarrow>
           if StatusCode resp = 200 then Inr True
           else if StatusCode resp = 404 then Inr False
           else Inl (Err (''unexpected response: '' @ fmt_d (StatusCode resp) @
                          '', body: '' @ Body resp)),
       [HttpCall rq]))"

definition getDebeziumConnectorConfig_request :: "string \<Rightarrow> string \<Rightarrow> http_request" where
  "getDebeziumConnectorConfig_request host name =
     \<lparr>Method = GET, URL = host @ ''/connectors/'' @ name @ ''/config'',
      ContentType = None, ReqBody = NoBody\<rparr>"

definition getDebeziumConnectorConfig ::
  "env \<Rightarrow> string \<Rightarrow> string \<Rightarrow> (go_error + config) \<times> event list" where
  "getDebeziumConnectorConfig r host name =
     (let rq = getDebeziumConnectorConfig_request host name in
      (case http_do r rq of
         RequestError err \<Rightarrow> Inl (Err (''failed to GET connector config: '' @ Error_text err))
       | TransportError err \<Rightarrow> Inl (Err (''failed to GET connector config: '' @ Error_text err))
       | Response resp \<Rightarrow>
           if StatusCode resp \<noteq> 200
           then Inl (Err (''GET connector config returned status '' @ fmt_d (StatusCode resp) @
                          '': '' @ Body resp))
           else (case decode_config r resp of
                   Inl err \<Rightarrow> Inl (Err (''failed to decode connector config: '' @ Error_text err))
                 | Inr config \<Rightarrow> Inr config),
       [HttpCall rq]))"

definition createDebeziumConnector_request :: "string \<Rightarrow> config \<Rightarrow> http_request" where
  "createDebeziumConnector_request host config =
     \<lparr>Method = POST, URL = host @ ''/connectors'', ContentType = Some ''application/json'',
      ReqBody = ConnectorJSON (config_index config ''name'') config\<rparr>"

definition createDebeziumConnector ::
  "env \<Rightarrow> string \<Rightarrow> config \<Rightarrow> go_error option \<times> event list" where
  "createDebeziumConnector r host config =
     (let rq = createDebeziumConnector_request host config in
      (case http_do r rq of
         RequestError err \<Rightarrow> Some err
       | TransportError err \<Rightarrow> Some err
       | Response resp \<Rightarrow>
           if StatusCode resp \<noteq> 201 \<and> StatusCode resp \<noteq> 200
           then Some (Err (''failed to create connector, status: '' @ fmt_d (StatusCode resp) @
                           '', body: '' @ Body resp))
           else None,
       [HttpCall rq]))"

definition updateDebeziumConnector_request :: "string \<Rightarrow> config \<Rightarrow> http_request" where
  "updateDebeziumConnector_request host config =
     \<lparr>Method = PUT, URL = host @ ''/connectors/'' @ config_index config ''name'' @ ''/config'',
      ContentType = Some ''application/json'', ReqBody = ConfigJSON config\<rparr>"

definition updateDebeziumConnector ::
  "env \<Rightarrow> string \<Rightarrow> config \<Rightarrow> go_error option \<times> event list" where
  "updateDebeziumConnector r host config =
     (let rq = updateDebeziumConnector_request host config in
      (case http_do r rq of
         RequestError err \<Rightarrow> Some err
       | TransportError err \<Rightarrow> Some err
       | Response resp \<Rightarrow>
           if StatusCode resp \<noteq> 200
           then Some (Err (''failed to update connector, status: '' @ fmt_d (StatusCode resp) @
                           '', body: '' @ Body resp))
           else None,
       [HttpCall rq]))"

definition deleteDebeziumConnector_request :: "string \<Rightarrow> string \<Rightarrow> http_request" where
  "deleteDebeziumConnector_request host name =
     \<lparr>Method = DELETE, URL = host @ ''/connectors/'' @ name, ContentType = None,
      ReqBody = NoBody\<rparr>"

definition deleteDebeziumConnector ::
  "env \<Rightarrow> string \<Rightarrow> string \<Rightarrow> go_error option \<times> event list" where
  "deleteDebeziumConnector r host name =
     (let rq = deleteDebeziumConnector_request host name in
      (case http_do r rq of
         RequestError err \<Rightarrow> Some err
       | TransportError err \<Rightarrow> Some err
       | Response resp \<Rightarrow>
           if StatusCode resp \<noteq> 204 \<and> StatusCode resp \<noteq> 200
           then Some (Err (''failed to delete connector, status: '' @ fmt_d (StatusCode resp) @
                           '', body: '' @ Body resp))
           else None,
       [HttpCall rq]))"

section \<open>The reconcile pass\<close>

text \<open>
  The result of a pass as the controller runtime reads it; a duration counts
  nanoseconds.
\<close>

record Result =
  Requeue :: bool
  RequeueAfter :: int

definition Second :: int where
  "Second = 1000000000"

definition Result_zero :: Result where
  "Result_zero = \<lparr>Requeue = False, RequeueAfter = 0\<rparr>"

text \<open>
  \<^verbatim>\<open>Reconcile\<close>: the value returned and the trace of what the pass did. The branches
  follow the source: load the record; the deletion branch; the finalizer; the existence
  check; create, or fetch, compare and update.
\<close>

definition Reconcile :: "env \<Rightarrow> string \<times> string \<Rightarrow> (go_error + Result) \<times> event list" where
  "Reconcile r req =
     (case k8s_get r req of
        Inl err \<Rightarrow>
          if IsNotFound err then (Inr Result_zero, []) else (Inl err, [])
      | Inr dbc \<Rightarrow>
          if \<not> IsZero (DeletionTimestamp (Meta dbc)) then
            (if ContainsFinalizer dbc debeziumFinalizer then
               (case deleteDebeziumConnector r (DebeziumHost (Spec dbc))
                       (config_index (Config (Spec dbc)) ''name'') of
                  (Some err, t1) \<Rightarrow> (Inl err, t1)
                | (None, t1) \<Rightarrow>
                    (case Update r (RemoveFinalizer dbc debeziumFinalizer) of
                       (Some err, t2) \<Rightarrow> (Inl err, t1 @ t2)
                     | (None, t2) \<Rightarrow> (Inr Result_zero, t1 @ t2)))
             else (Inr Result_zero, []))
          else
            (case (if \<not> ContainsFinalizer dbc debeziumFinalizer
                   then Update r (AddFinalizer dbc debeziumFinalizer)
                   else (None, [])) of
               (Some err, t0) \<Rightarrow> (Inl err, t0)
             | (None, t0) \<Rightarrow>
                 (case connectorExists r (DebeziumHost (Spec dbc))
                         (config_index (Config (Spec dbc)) ''name'') of
                    (Inl err, t1) \<Rightarrow> (Inl err, t0 @ t1)
                  | (Inr exists, t1) \<Rightarrow>
                      if \<not> exists then
                        (case createDebeziumConnector r (DebeziumHost (Spec dbc))
                                (Config (Spec dbc)) of
                           (Some err, t2) \<Rightarrow> (Inl err, t0 @ t1 @ t2)
                         | (None, t2) \<Rightarrow>
                             (Inr \<lparr>Requeue = False, RequeueAfter = 60 * Second\<rparr>,
                              t0 @ t1 @ t2))
                      else
                        (case getDebeziumConnectorConfig r (DebeziumHost (Spec dbc))
                                (config_index (Config (Spec dbc)) ''name'') of
                           (Inl err, t2) \<Rightarrow> (Inl err, t0 @ t1 @ t2)
                         | (Inr externalConfig, t2) \<Rightarrow>
                             if \<not> ConfigsEqual externalConfig (Config (Spec dbc)) then
                               (case updateDebeziumConnector r (DebeziumHost (Spec dbc))
                                       (Config (Spec dbc)) of
                                  (Some err, t3) \<Rightarrow> (Inl err, t0 @ t1 @ t2 @ t3)
                                | (None, t3) \<Rightarrow>
                                    (Inr \<lparr>Requeue = False, RequeueAfter = 60 * Second\<rparr>,
                                     t0 @ t1 @ t2 @ t3))
                             else
                               (Inr \<lparr>Requeue = False, RequeueAfter = 60 * Second\<rparr>,
                                t0 @ t1 @ t2)))))"

section \<open>The admission webhook (package v1alpha1)\<close>

text \<open>
  A field error names the path of the field, as the list of its segments; an invalid one
  also holds the offending value, a string or a whole configuration map.
\<close>

datatype bad_value = StringValue string | ConfigValue config

datatype field_error =
    Required "string list" string
  | Invalid "string list" bad_value string

text \<open>
  The webhook rejects with an invalid status built by \<^verbatim>\<open>apierrors.NewInvalid\<close> from the
  record's name and the field errors, or fails with a plain error.
\<close>

datatype admission_error =
    StatusInvalid string "field_error list"
  | Errorf string

text \<open>
  The verb \<^verbatim>\<open>%q\<close> on a string that needs no escaping, which is the case of the two keys
  it is applied to: the string between double quotes.
\<close>

definition fmt_q :: "string \<Rightarrow> string" where
  "fmt_q s = [CHR 0x22] @ s @ [CHR 0x22]"

text \<open>
  The earlier revision of \<^verbatim>\<open>validateDebeziumConnector\<close>: local checks only. Its loop over
  the required keys appends one error for each key the configuration lacks.
\<close>

fun requiredKeys_range :: "string list \<Rightarrow> config \<Rightarrow> field_error list \<Rightarrow> field_error list" where
  "requiredKeys_range [] cfg allErrs = allErrs"
| "requiredKeys_range (key # keys) cfg allErrs =
     requiredKeys_range keys cfg
       (case fmlookup cfg key of
          None \<Rightarrow> allErrs @ [Required [''spec'', ''config'', key]
                               (''config must include key '' @ fmt_q key)]
        | Some v \<Rightarrow> allErrs)"

definition validateDebeziumConnector_rev1 :: "DebeziumConnector \<Rightarrow> admission_error option" where
  "validateDebeziumConnector_rev1 r =
     (let allErrs0 =
            (if DebeziumHost (Spec r) = []
             then [Required [''spec'', ''debeziumHost''] ''debeziumHost cannot be empty'']
             else []);
          allErrs1 =
            (if fcard (fmdom (Config (Spec r))) = 0
             then allErrs0 @ [Invalid [''spec'', ''config''] (ConfigValue (Config (Spec r)))
                                ''config cannot be empty'']
             else requiredKeys_range [''name'', ''connector.class''] (Config (Spec r)) allErrs0)
      in if length allErrs1 = 0 then None
         else Some (StatusInvalid (Name (Meta r)) allErrs1))"

text \<open>
  The later revision: two local checks, then the configuration is handed to the
  validation endpoint of the upstream, and the errors it reports, one per key of the
  \<^verbatim>\<open>errors\<close> object, are added (in key order here; Go leaves the order open).
\<close>

fun Errors_range :: "(string \<times> string) list \<Rightarrow> config \<Rightarrow> field_error list \<Rightarrow> field_error list" where
  "Errors_range [] cfg allErrs = allErrs"
| "Errors_range ((key, msg) # rest) cfg allErrs =
     Errors_range rest cfg
       (allErrs @ [Invalid [''spec'', ''config'', key] (StringValue (config_index cfg key)) msg])"

definition validate_request :: "string \<Rightarrow> string \<Rightarrow> config \<Rightarrow> http_request" where
  "validate_request host connectorClass cfg =
     \<lparr>Method = POST,
      URL = host @ ''/connector-plugins/'' @ connectorClass @ ''/config/validate'',
      ContentType = Some ''application/json'',
      ReqBody = ConnectorJSON (config_index cfg ''name'') cfg\<rparr>"

definition validateDebeziumConnector ::
  "env \<Rightarrow> DebeziumConnector \<Rightarrow> admission_error option \<times> event list" where
  "validateDebeziumConnector e r =
     (let allErrs0 =
            (if DebeziumHost (Spec r) = []
             then [Required [''spec'', ''debeziumHost''] ''debeziumHost cannot be empty'']
             else []);
          allErrs1 =
            (case fmlookup (Config (Spec r)) ''connector.class'' of
               None \<Rightarrow> allErrs0 @ [Required [''spec'', ''config'', ''connector.class'']
                                    (''config must include key '' @ fmt_q ''connector.class'')]
             | Some c \<Rightarrow> allErrs0)
      in if length allErrs1 > 0 then (Some (StatusInvalid (Name (Meta r)) allErrs1), [])
         else
           (let rq = validate_request (DebeziumHost (Spec r))
                       (config_index (Config (Spec r)) ''connector.class'') (Config (Spec r))
            in (case http_do e rq of
                  RequestError err \<Rightarrow>
                    Some (Errorf (''failed to create HTTP request: '' @ Error_text err))
                | TransportError err \<Rightarrow>
                    Some (Errorf (''error calling Debezium validation endpoint: '' @ Error_text err))
                | Response resp \<Rightarrow>
                    (case BodyErr resp of
                       Some err \<Rightarrow>
                         Some (Errorf (''failed to read validation response: '' @ Error_text err))
                     | None \<Rightarrow>
                         if StatusCode resp \<noteq> 200
                         then Some (Errorf (''debezium validation endpoint returned status '' @
                                            fmt_d (StatusCode resp) @ '': '' @ Body resp))
                         else
                           (case unmarshal_errors e (Body resp) of
                              Inl err \<Rightarrow>
                                Some (Errorf (''failed to unmarshal validation response: '' @
                                              Error_text err))
                            | Inr errors \<Rightarrow>
                                (let allErrs2 =
                                       Errors_range (sorted_list_of_fmap errors) (Config (Spec r))
                                         allErrs1
                                 in if length allErrs2 > 0
                                    then Some (StatusInvalid (Name (Meta r)) allErrs2)
                                    else None))),
                [HttpCall rq])))"

section \<open>Concrete records and surroundings\<close>

definition example_config :: config where
  "example_config =
     fmap_of_list [(''name'', ''c1''),
                   (''connector.class'', ''io.debezium.connector.mysql.MySqlConnector''),
                   (''tasks.max'', ''1'')]"

definition drifted_config :: config where
  "drifted_config =
     fmap_of_list [(''name'', ''c1''),
                   (''connector.class'', ''io.debezium.connector.mysql.MySqlConnector''),
                   (''tasks.max'', ''2'')]"

definition nameless_config :: config where
  "nameless_config =
     fmap_of_list [(''connector.class'', ''io.debezium.connector.mysql.MySqlConnector'')]"

definition classless_config :: config where
  "classless_config = fmap_of_list [(''name'', ''c1'')]"

definition example_record :: "nat option \<Rightarrow> string list \<Rightarrow> config \<Rightarrow> DebeziumConnector" where
  "example_record ts fs cfg =
     \<lparr>Meta = \<lparr>Name = ''c1-record'', Namespace = ''default'', DeletionTimestamp = ts,
              Finalizers = fs\<rparr>,
      Spec = \<lparr>DebeziumHost = ''http://dbz:8083'', Config = cfg\<rparr>,
      Status = \<lparr>Conditions = []\<rparr>\<rparr>"

definition fresh_record :: DebeziumConnector where
  "fresh_record = example_record None [] example_config"

definition synced_record :: DebeziumConnector where
  "synced_record = example_record None [debeziumFinalizer] example_config"

definition deleting_record :: DebeziumConnector where
  "deleting_record = example_record (Some 1700000000) [debeziumFinalizer] example_config"

definition nameless_record :: DebeziumConnector where
  "nameless_record = example_record None [] nameless_config"

definition classless_record :: DebeziumConnector where
  "classless_record = example_record None [] classless_config"

text \<open>
  Three upstreams: one that holds no connector (a lookup or a delete is answered 404, a
  create 201), one that holds the connector and accepts everything (200), and one that
  answers every request 500.
\<close>

definition upstream_absent :: "http_request \<Rightarrow> http_outcome" where
  "upstream_absent rq =
     (if Method rq = POST then Response \<lparr>StatusCode = 201, Body = [], BodyErr = None\<rparr>
      else Response \<lparr>StatusCode = 404, Body = ''connector c1 not found'', BodyErr = None\<rparr>)"

definition upstream_present :: "http_request \<Rightarrow> http_outcome" where
  "upstream_present rq = Response \<lparr>StatusCode = 200, Body = [], BodyErr = None\<rparr>"

definition upstream_broken :: "http_request \<Rightarrow> http_outcome" where
  "upstream_broken rq = Response \<lparr>StatusCode = 500, Body = ''boom'', BodyErr = None\<rparr>"

text \<open>An upstream that holds no connector and fails every attempt to create one.\<close>

definition upstream_create_fails :: "http_request \<Rightarrow> http_outcome" where
  "upstream_create_fails rq =
     (if Method rq = GET
      then Response \<lparr>StatusCode = 404, Body = ''connector c1 not found'', BodyErr = None\<rparr>
      else Response \<lparr>StatusCode = 500, Body = ''boom'', BodyErr = None\<rparr>)"

text \<open>
  Surroundings in which the object store holds the given record and accepts every update,
  the upstream is the given one and reports the given configuration when asked.
\<close>

definition example_env ::
  "DebeziumConnector \<Rightarrow> (http_request \<Rightarrow> http_outcome) \<Rightarrow> config \<Rightarrow> env" where
  "example_env dbc upstream observed =
     \<lparr>k8s_get = (\<lambda>key. Inr dbc),
      k8s_update = (\<lambda>d. None),
      http_do = upstream,
      decode_config = (\<lambda>resp. Inr observed),
      unmarshal_errors = (\<lambda>body. Inr fmempty)\<rparr>"

definition gone_env :: env where
  "gone_env =
     \<lparr>k8s_get = (\<lambda>key. Inl (StatusNotFound ''debeziumconnectors c1-record not found'')),
      k8s_update = (\<lambda>d. None),
      http_do = upstream_present,
      decode_config = (\<lambda>resp. Inr example_config),
      unmarshal_errors = (\<lambda>body. Inr fmempty)\<rparr>"

text \<open>Surroundings in which the object store holds a fresh record and rejects every update.\<close>

definition conflict_env :: env where
  "conflict_env =
     \<lparr>k8s_get = (\<lambda>key. Inr fresh_record),
      k8s_update = (\<lambda>d. Some (Err ''the object has been modified'')),
      http_do = upstream_absent,
      decode_config = (\<lambda>resp. Inr example_config),
      unmarshal_errors = (\<lambda>body. Inr fmempty)\<rparr>"

text \<open>
  An upstream that answers every request 200 with the empty JSON object as body, and
  decoders that read that body as Go's do: as a configuration map it has no entries, as a
  validation response it reports no errors. The empty body is refused, as
  \<^verbatim>\<open>encoding/json\<close> refuses it; no other body is met in these surroundings, and the
  decoders here refuse it as well.
\<close>

definition upstream_validates :: "http_request \<Rightarrow> http_outcome" where
  "upstream_validates rq = Response \<lparr>StatusCode = 200, Body = ''{}'', BodyErr = None\<rparr>"

definition decode_empty_object :: "string \<Rightarrow> go_error + config" where
  "decode_empty_object body =
     (if body = ''{}'' then Inr fmempty
      else if body = [] then Inl (Err ''unexpected end of JSON input'')
      else Inl (Err ''cannot decode body''))"

text \<open>
  Surroundings in which the object store holds the record without a \<open>name\<close> and accepts
  every update, and the upstream is the one above.
\<close>

definition validating_env :: env where
  "validating_env =
     \<lparr>k8s_get = (\<lambda>key. Inr nameless_record),
      k8s_update = (\<lambda>d. None),
      http_do = upstream_validates,
      decode_config = (\<lambda>resp. decode_empty_object (Body resp)),
      unmarshal_errors = decode_empty_object\<rparr>"

definition example_key :: "string \<times> string" where
  "example_key = (''default'', ''c1-record'')"

section \<open>Lemmas about the comparison\<close>

lemma ConfigsEqual_range_iff:
  "ConfigsEqual_range es b \<longleftrightarrow> (\<forall>(k, v) \<in> set es. fmlookup b k = Some v)"
  by (induction es b rule: ConfigsEqual_range.induct) (auto split: option.splits)

lemma ConfigsEqual_range_order:
  "set es = set es' \<Longrightarrow> ConfigsEqual_range es b = ConfigsEqual_range es' b"
  by (simp add: ConfigsEqual_range_iff)

lemma set_sorted_list_of_fmap:
  "set (sorted_list_of_fmap a) = {(k, v). fmlookup a k = Some v}"
proof -
  have "set (sorted_list_of_fmap a) = (\<lambda>k. (k, the (fmlookup a k))) ` fset (fmdom a)"
    by (simp add: sorted_list_of_fmap_def)
  also have "\<dots> = {(k, v). fmlookup a k = Some v}"
    by (auto simp: image_iff fmlookup_dom_iff)
  finally show ?thesis .
qed

lemma ConfigsEqual_sub:
  "ConfigsEqual_range (sorted_list_of_fmap a) b \<longleftrightarrow>
     (\<forall>k v. fmlookup a k = Some v \<longrightarrow> fmlookup b k = Some v)"
  by (auto simp: ConfigsEqual_range_iff set_sorted_list_of_fmap)

lemma ConfigsEqual_eq: "ConfigsEqual a b \<longleftrightarrow> a = b"
proof
  assume eq: "ConfigsEqual a b"
  then have card: "fcard (fmdom a) = fcard (fmdom b)"
    and sub: "\<And>k v. fmlookup a k = Some v \<Longrightarrow> fmlookup b k = Some v"
    by (auto simp: ConfigsEqual_def ConfigsEqual_sub split: if_splits)
  have "fmdom a |\<subseteq>| fmdom b"
    using sub by (auto simp: fmlookup_dom_iff)
  then have "fset (fmdom a) \<subseteq> fset (fmdom b)"
    by (simp add: less_eq_fset.rep_eq)
  moreover have "card (fset (fmdom a)) = card (fset (fmdom b))"
    using card by (simp add: fcard.rep_eq)
  ultimately have "fset (fmdom a) = fset (fmdom b)"
    by (simp add: card_subset_eq)
  then have dom: "fmdom a = fmdom b"
    by (simp add: fset_inject)
  show "a = b"
  proof (rule fmap_ext)
    fix k
    show "fmlookup a k = fmlookup b k"
    proof (cases "fmlookup a k")
      case None
      then have "k |\<notin>| fmdom a" by (rule fmdom_notI)
      then have "k |\<notin>| fmdom b" using dom by simp
      then show ?thesis using None by (simp add: fmdom_notD)
    next
      case (Some v)
      then show ?thesis using sub by simp
    qed
  qed
next
  assume "a = b"
  then show "ConfigsEqual a b"
    by (simp add: ConfigsEqual_def ConfigsEqual_sub)
qed

section \<open>The traces of the operations\<close>

lemma snd_connectorExists [simp]:
  "snd (connectorExists r host name) = [HttpCall (connectorExists_request host name)]"
  by (simp add: connectorExists_def Let_def)

lemma snd_getDebeziumConnectorConfig [simp]:
  "snd (getDebeziumConnectorConfig r host name) =
     [HttpCall (getDebeziumConnectorConfig_request host name)]"
  by (simp add: getDebeziumConnectorConfig_def Let_def)

lemma snd_createDebeziumConnector [simp]:
  "snd (createDebeziumConnector r host cfg) =
     [HttpCall (createDebeziumConnector_request host cfg)]"
  by (simp add: createDebeziumConnector_def Let_def)

lemma snd_updateDebeziumConnector [simp]:
  "snd (updateDebeziumConnector r host cfg) =
     [HttpCall (updateDebeziumConnector_request host cfg)]"
  by (simp add: updateDebeziumConnector_def Let_def)

lemma snd_deleteDebeziumConnector [simp]:
  "snd (deleteDebeziumConnector r host name) =
     [HttpCall (deleteDebeziumConnector_request host name)]"
  by (simp add: deleteDebeziumConnector_def Let_def)

lemma Update_simps [simp]:
  "fst (Update r d) = k8s_update r d"
  "snd (Update r d) = [K8sUpdate d (k8s_update r d = None)]"
  by (simp_all add: Update_def)

section \<open>Evaluations used below\<close>

lemma drifted_not_equal: "\<not> ConfigsEqual drifted_config example_config"
  by code_simp

lemma fmt_d_500: "fmt_d 500 = ''500''"
  by code_simp

lemma fmt_d_404: "fmt_d 404 = ''404''"
  by code_simp

lemma sorted_list_of_fmap_empty: "sorted_list_of_fmap (fmempty :: config) = []"
  by (simp add: sorted_list_of_fmap_def sorted_list_of_fset.rep_eq)

lemma name_example [simp]: "config_index example_config ''name'' = ''c1''"
  by (simp add: config_index_def example_config_def)

lemma example_record_simps [simp]:
  "Spec (example_record ts fs cfg) = \<lparr>DebeziumHost = ''http://dbz:8083'', Config = cfg\<rparr>"
  "DeletionTimestamp (Meta (example_record ts fs cfg)) = ts"
  "Finalizers (Meta (example_record ts fs cfg)) = fs"
  "Name (Meta (example_record ts fs cfg)) = ''c1-record''"
  "Status (example_record ts fs cfg) = \<lparr>Conditions = []\<rparr>"
  by (simp_all add: example_record_def)

lemma example_env_simps [simp]:
  "k8s_get (example_env dbc up obs) key = Inr dbc"
  "k8s_update (example_env dbc up obs) d = None"
  "http_do (example_env dbc up obs) = up"
  "decode_config (example_env dbc up obs) resp = Inr obs"
  "unmarshal_errors (example_env dbc up obs) body = Inr fmempty"
  by (simp_all add: example_env_def)

text \<open>Whole passes, evaluated.\<close>

lemma create_pass:
  "Reconcile (example_env fresh_record upstream_absent example_config) example_key =
     (Inr \<lparr>Requeue = False, RequeueAfter = 60000000000\<rparr>,
      [K8sUpdate (AddFinalizer fresh_record debeziumFinalizer) True,
       HttpCall \<lparr>Method = GET, URL = ''http://dbz:8083/connectors/c1'',
                 ContentType = None, ReqBody = NoBody\<rparr>,
       HttpCall \<lparr>Method = POST, URL = ''http://dbz:8083/connectors'',
                 ContentType = Some ''application/json'',
                 ReqBody = ConnectorJSON ''c1'' example_config\<rparr>])"
  by (simp add: Reconcile_def fresh_record_def IsZero_def ContainsFinalizer_def
      debeziumFinalizer_def connectorExists_def connectorExists_request_def
      upstream_absent_def createDebeziumConnector_def createDebeziumConnector_request_def
      Update_def Second_def)

lemma noop_pass:
  "Reconcile (example_env synced_record upstream_present example_config) example_key =
     (Inr \<lparr>Requeue = False, RequeueAfter = 60000000000\<rparr>,
      [HttpCall \<lparr>Method = GET, URL = ''http://dbz:8083/connectors/c1'',
                 ContentType = None, ReqBody = NoBody\<rparr>,
       HttpCall \<lparr>Method = GET, URL = ''http://dbz:8083/connectors/c1/config'',
                 ContentType = None, ReqBody = NoBody\<rparr>])"
  by (simp add: Reconcile_def synced_record_def IsZero_def ContainsFinalizer_def
      connectorExists_def connectorExists_request_def upstream_present_def
      getDebeziumConnectorConfig_def getDebeziumConnectorConfig_request_def
      ConfigsEqual_eq Second_def)

lemma update_pass:
  "Reconcile (example_env synced_record upstream_present drifted_config) example_key =
     (Inr \<lparr>Requeue = False, RequeueAfter = 60000000000\<rparr>,
      [HttpCall \<lparr>Method = GET, URL = ''http://dbz:8083/connectors/c1'',
                 ContentType = None, ReqBody = NoBody\<rparr>,
       HttpCall \<lparr>Method = GET, URL = ''http://dbz:8083/connectors/c1/config'',
                 ContentType = None, ReqBody = NoBody\<rparr>,
       HttpCall \<lparr>Method = PUT, URL = ''http://dbz:8083/connectors/c1/config'',
                 ContentType = Some ''application/json'',
                 ReqBody = ConfigJSON example_config\<rparr>])"
  by (simp add: Reconcile_def synced_record_def IsZero_def ContainsFinalizer_def
      connectorExists_def connectorExists_request_def upstream_present_def
      getDebeziumConnectorConfig_def getDebeziumConnectorConfig_request_def
      updateDebeziumConnector_def updateDebeziumConnector_request_def
      drifted_not_equal Second_def)

lemma delete_pass:
  "Reconcile (example_env deleting_record upstream_present example_config) example_key =
     (Inr \<lparr>Requeue = False, RequeueAfter = 0\<rparr>,
      [HttpCall \<lparr>Method = DELETE, URL = ''http://dbz:8083/connectors/c1'',
                 ContentType = None, ReqBody = NoBody\<rparr>,
       K8sUpdate (RemoveFinalizer deleting_record debeziumFinalizer) True])"
  by (simp add: Reconcile_def deleting_record_def IsZero_def ContainsFinalizer_def
      deleteDebeziumConnector_def deleteDebeziumConnector_request_def upstream_present_def
      Update_def Result_zero_def)

lemma delete_absent_pass:
  "Reconcile (example_env deleting_record upstream_absent example_config) example_key =
     (Inl (Err ''failed to delete connector, status: 404, body: connector c1 not found''),
      [HttpCall \<lparr>Method = DELETE, URL = ''http://dbz:8083/connectors/c1'',
                 ContentType = None, ReqBody = NoBody\<rparr>])"
  by (simp add: Reconcile_def deleting_record_def IsZero_def ContainsFinalizer_def
      deleteDebeziumConnector_def deleteDebeziumConnector_request_def upstream_absent_def
      fmt_d_404)

lemma create_fails_pass:
  "Reconcile (example_env fresh_record upstream_create_fails example_config) example_key =
     (Inl (Err ''failed to create connector, status: 500, body: boom''),
      [K8sUpdate (AddFinalizer fresh_record debeziumFinalizer) True,
       HttpCall \<lparr>Method = GET, URL = ''http://dbz:8083/connectors/c1'',
                 ContentType = None, ReqBody = NoBody\<rparr>,
       HttpCall \<lparr>Method = POST, URL = ''http://dbz:8083/connectors'',
                 ContentType = Some ''application/json'',
                 ReqBody = ConnectorJSON ''c1'' example_config\<rparr>])"
  by (simp add: Reconcile_def fresh_record_def IsZero_def ContainsFinalizer_def
      debeziumFinalizer_def connectorExists_def connectorExists_request_def
      upstream_create_fails_def createDebeziumConnector_def
      createDebeziumConnector_request_def Update_def fmt_d_500)

lemma nameless_name [simp]: "config_index nameless_config ''name'' = []"
  by (simp add: config_index_def nameless_config_def)

lemma nameless_not_empty: "\<not> ConfigsEqual fmempty nameless_config"
  by code_simp

lemma nameless_admitted:
  "validateDebeziumConnector validating_env nameless_record =
     (None,
      [HttpCall \<lparr>Method = POST,
         URL = ''http://dbz:8083/connector-plugins/io.debezium.connector.mysql.MySqlConnector/config/validate'',
         ContentType = Some ''application/json'',
         ReqBody = ConnectorJSON [] nameless_config\<rparr>])"
  by (simp add: validateDebeziumConnector_def nameless_record_def nameless_config_def
      validating_env_def validate_request_def upstream_validates_def
      decode_empty_object_def config_index_def sorted_list_of_fmap_empty)

lemma nameless_pass:
  "Reconcile validating_env example_key =
     (Inr \<lparr>Requeue = False, RequeueAfter = 60000000000\<rparr>,
      [K8sUpdate (AddFinalizer nameless_record debeziumFinalizer) True,
       HttpCall \<lparr>Method = GET, URL = ''http://dbz:8083/connectors/'',
                 ContentType = None, ReqBody = NoBody\<rparr>,
       HttpCall \<lparr>Method = GET, URL = ''http://dbz:8083/connectors//config'',
                 ContentType = None, ReqBody = NoBody\<rparr>,
       HttpCall \<lparr>Method = PUT, URL = ''http://dbz:8083/connectors//config'',
                 ContentType = Some ''application/json'',
                 ReqBody = ConfigJSON nameless_config\<rparr>])"
  by (simp add: Reconcile_def validating_env_def nameless_record_def IsZero_def
      ContainsFinalizer_def debeziumFinalizer_def connectorExists_def
      connectorExists_request_def upstream_validates_def
      getDebeziumConnectorConfig_def getDebeziumConnectorConfig_request_def
      decode_empty_object_def nameless_not_empty
      updateDebeziumConnector_def updateDebeziumConnector_request_def
      Update_def Second_def)

section \<open>Claims\<close>

text \<open>
  C5. For all configuration maps \<open>a\<close> and \<open>b\<close>, \<open>ConfigsEqual a b\<close> is true if and only if
  the two maps have the same set of keys and every key maps to the same byte string in
  both. Nothing is coerced, normalised or defaulted: the values are compared as they are.
\<close>

theorem ConfigsEqual_iff_same_keys_same_values:
  "ConfigsEqual a b \<longleftrightarrow>
     fmdom a = fmdom b \<and> (\<forall>k. k |\<in>| fmdom a \<longrightarrow> fmlookup a k = fmlookup b k)"
proof -
  have "a = b \<longleftrightarrow>
     fmdom a = fmdom b \<and> (\<forall>k. k |\<in>| fmdom a \<longrightarrow> fmlookup a k = fmlookup b k)"
  proof
    assume "a = b"
    then show "fmdom a = fmdom b \<and> (\<forall>k. k |\<in>| fmdom a \<longrightarrow> fmlookup a k = fmlookup b k)"
      by simp
  next
    assume h: "fmdom a = fmdom b \<and> (\<forall>k. k |\<in>| fmdom a \<longrightarrow> fmlookup a k = fmlookup b k)"
    show "a = b"
    proof (rule fmap_ext)
      fix k
      show "fmlookup a k = fmlookup b k"
      proof (cases "k |\<in>| fmdom a")
        case True
        then show ?thesis using h by simp
      next
        case False
        then have "k |\<notin>| fmdom b" using h by simp
        then show ?thesis using False by (simp add: fmdom_notD)
      qed
    qed
  qed
  then show ?thesis by (simp add: ConfigsEqual_eq)
qed

theorem ConfigsEqual_iff_same_keys_same_values_witness:
  "ConfigsEqual example_config example_config \<and> \<not> ConfigsEqual drifted_config example_config"
proof -
  have d: "fmdom drifted_config = fmdom example_config"
    by (simp add: drifted_config_def example_config_def)
  have l: "fmlookup drifted_config ''tasks.max'' \<noteq> fmlookup example_config ''tasks.max''"
    by (simp add: drifted_config_def example_config_def)
  have k: "''tasks.max'' |\<in>| fmdom drifted_config"
    by (simp add: drifted_config_def)
  show ?thesis
    using ConfigsEqual_iff_same_keys_same_values [of example_config example_config]
      ConfigsEqual_iff_same_keys_same_values [of drifted_config example_config] d l k
    by blast
qed

text \<open>
  C10. When the record of the key no longer exists in the object store (the lookup fails
  with a not-found error), the pass returns success: no error, no requeue, and it has
  done nothing to the store or to the upstream.
\<close>

theorem Reconcile_not_found:
  assumes "k8s_get r req = Inl err" and "IsNotFound err"
  shows "Reconcile r req = (Inr \<lparr>Requeue = False, RequeueAfter = 0\<rparr>, [])"
  using assms by (simp add: Reconcile_def Result_zero_def)

theorem Reconcile_not_found_witness:
  "Reconcile gone_env example_key = (Inr \<lparr>Requeue = False, RequeueAfter = 0\<rparr>, [])"
  using Reconcile_not_found
    [of gone_env example_key "StatusNotFound ''debeziumconnectors c1-record not found''"]
  by (simp add: gone_env_def)

text \<open>
  C8. The existence check reads the upstream's answer thus: status 200, the connector is
  present; status 404, it is absent; any other status, an error whose message holds the
  status and ends with the body of the response, and not a report of absence.
\<close>

theorem connectorExists_classifies:
  assumes "http_do r (connectorExists_request host name) = Response resp"
  shows "(StatusCode resp = 200 \<longrightarrow> fst (connectorExists r host name) = Inr True) \<and>
         (StatusCode resp = 404 \<longrightarrow> fst (connectorExists r host name) = Inr False) \<and>
         (StatusCode resp \<noteq> 200 \<and> StatusCode resp \<noteq> 404 \<longrightarrow>
            fst (connectorExists r host name) =
              Inl (Err (''unexpected response: '' @ fmt_d (StatusCode resp) @
                        '', body: '' @ Body resp)))"
  using assms by (simp add: connectorExists_def Let_def)

theorem connectorExists_classifies_witness:
  "fst (connectorExists (example_env fresh_record upstream_present example_config)
          ''http://dbz:8083'' ''c1'') = Inr True \<and>
   fst (connectorExists (example_env fresh_record upstream_absent example_config)
          ''http://dbz:8083'' ''c1'') = Inr False \<and>
   fst (connectorExists (example_env fresh_record upstream_broken example_config)
          ''http://dbz:8083'' ''c1'') = Inl (Err ''unexpected response: 500, body: boom'')"
proof -
  have p: "http_do (example_env fresh_record upstream_present example_config)
             (connectorExists_request ''http://dbz:8083'' ''c1'')
           = Response \<lparr>StatusCode = 200, Body = [], BodyErr = None\<rparr>"
    by (simp add: example_env_def upstream_present_def)
  have a: "http_do (example_env fresh_record upstream_absent example_config)
             (connectorExists_request ''http://dbz:8083'' ''c1'')
           = Response \<lparr>StatusCode = 404, Body = ''connector c1 not found'', BodyErr = None\<rparr>"
    by (simp add: example_env_def upstream_absent_def connectorExists_request_def)
  have b: "http_do (example_env fresh_record upstream_broken example_config)
             (connectorExists_request ''http://dbz:8083'' ''c1'')
           = Response \<lparr>StatusCode = 500, Body = ''boom'', BodyErr = None\<rparr>"
    by (simp add: example_env_def upstream_broken_def)
  show ?thesis
    using connectorExists_classifies [OF p] connectorExists_classifies [OF a]
      connectorExists_classifies [OF b]
    by (simp add: fmt_d_500)
qed

text \<open>
  C1, as the code contradicts it. The claim says that a deletion pass whose delete call
  finds the connector already absent is a success that releases the finalizer. Against an
  upstream that holds no connector (the existence check itself reads its 404 as absent),
  the pass on a record marked for deletion with the finalizer present returns the error
  of the delete call and writes nothing to the store: the finalizer stays.
\<close>

theorem Reconcile_delete_absent_counterexample:
  "fst (connectorExists (example_env deleting_record upstream_absent example_config)
          ''http://dbz:8083'' ''c1'') = Inr False \<and>
   ContainsFinalizer deleting_record debeziumFinalizer \<and>
   \<not> IsZero (DeletionTimestamp (Meta deleting_record)) \<and>
   fst (Reconcile (example_env deleting_record upstream_absent example_config) example_key) =
     Inl (Err ''failed to delete connector, status: 404, body: connector c1 not found'') \<and>
   k8s_updates
     (snd (Reconcile (example_env deleting_record upstream_absent example_config) example_key)) = []"
proof -
  have "fst (connectorExists (example_env deleting_record upstream_absent example_config)
          ''http://dbz:8083'' ''c1'') = Inr False"
    by (simp add: connectorExists_def connectorExists_request_def upstream_absent_def)
  moreover have "ContainsFinalizer deleting_record debeziumFinalizer"
    by (simp add: deleting_record_def ContainsFinalizer_def)
  moreover have "\<not> IsZero (DeletionTimestamp (Meta deleting_record))"
    by (simp add: deleting_record_def IsZero_def)
  ultimately show ?thesis
    by (simp add: delete_absent_pass)
qed

text \<open>
  C1, amended. On a record marked for deletion whose finalizer is present, the pass
  releases the finalizer exactly when the delete call is answered 200 or 204: it then
  writes the record without the finalizer to the store and, when the store accepts it,
  returns success with no requeue. Every other status, 404 included, is returned as an
  error and the store is not written.
\<close>

theorem Reconcile_delete_release:
  assumes "k8s_get r req = Inr dbc"
    and "\<not> IsZero (DeletionTimestamp (Meta dbc))"
    and "ContainsFinalizer dbc debeziumFinalizer"
    and "http_do r (deleteDebeziumConnector_request (DebeziumHost (Spec dbc))
                      (config_index (Config (Spec dbc)) ''name'')) = Response resp"
  shows "(StatusCode resp = 200 \<or> StatusCode resp = 204 \<longrightarrow>
            k8s_updates (snd (Reconcile r req)) =
              [(RemoveFinalizer dbc debeziumFinalizer,
                k8s_update r (RemoveFinalizer dbc debeziumFinalizer) = None)] \<and>
            \<not> ContainsFinalizer (RemoveFinalizer dbc debeziumFinalizer) debeziumFinalizer \<and>
            (k8s_update r (RemoveFinalizer dbc debeziumFinalizer) = None \<longrightarrow>
               fst (Reconcile r req) = Inr \<lparr>Requeue = False, RequeueAfter = 0\<rparr>)) \<and>
         (StatusCode resp \<noteq> 200 \<and> StatusCode resp \<noteq> 204 \<longrightarrow>
            fst (Reconcile r req) =
              Inl (Err (''failed to delete connector, status: '' @ fmt_d (StatusCode resp) @
                        '', body: '' @ Body resp)) \<and>
            k8s_updates (snd (Reconcile r req)) = [])"
  using assms
  by (auto simp: Reconcile_def split_beta deleteDebeziumConnector_def Let_def Result_zero_def
      ContainsFinalizer_def RemoveFinalizer_def
      split: if_splits option.splits sum.splits)

theorem Reconcile_delete_release_witness:
  "k8s_updates (snd (Reconcile (example_env deleting_record upstream_present example_config)
                       example_key)) =
     [(RemoveFinalizer deleting_record debeziumFinalizer, True)] \<and>
   Finalizers (Meta (RemoveFinalizer deleting_record debeziumFinalizer)) = [] \<and>
   fst (Reconcile (example_env deleting_record upstream_present example_config) example_key) =
     Inr \<lparr>Requeue = False, RequeueAfter = 0\<rparr> \<and>
   fst (Reconcile (example_env deleting_record upstream_broken example_config) example_key) =
     Inl (Err ''failed to delete connector, status: 500, body: boom'') \<and>
   k8s_updates (snd (Reconcile (example_env deleting_record upstream_broken example_config)
                       example_key)) = []"
proof -
  let ?P = "example_env deleting_record upstream_present example_config"
  let ?B = "example_env deleting_record upstream_broken example_config"
  have z: "\<not> IsZero (DeletionTimestamp (Meta deleting_record))"
    by (simp add: deleting_record_def IsZero_def)
  have f: "ContainsFinalizer deleting_record debeziumFinalizer"
    by (simp add: deleting_record_def ContainsFinalizer_def)
  have gp: "k8s_get ?P example_key = Inr deleting_record" by simp
  have gb: "k8s_get ?B example_key = Inr deleting_record" by simp
  have hp: "http_do ?P (deleteDebeziumConnector_request (DebeziumHost (Spec deleting_record))
                          (config_index (Config (Spec deleting_record)) ''name'')) =
            Response \<lparr>StatusCode = 200, Body = [], BodyErr = None\<rparr>"
    by (simp add: upstream_present_def)
  have hb: "http_do ?B (deleteDebeziumConnector_request (DebeziumHost (Spec deleting_record))
                          (config_index (Config (Spec deleting_record)) ''name'')) =
            Response \<lparr>StatusCode = 500, Body = ''boom'', BodyErr = None\<rparr>"
    by (simp add: upstream_broken_def)
  have r: "Finalizers (Meta (RemoveFinalizer deleting_record debeziumFinalizer)) = []"
    by (simp add: RemoveFinalizer_def deleting_record_def)
  show ?thesis
    using Reconcile_delete_release [OF gp z f hp] Reconcile_delete_release [OF gb z f hb] r
    by (simp add: fmt_d_500)
qed

text \<open>
  C2. On a record that is not being deleted, whose finalizer is in place (or is accepted
  by the store in this pass), when the existence check finds the connector and the fetch
  of its configuration returns \<open>observed\<close>: the pass makes the existence check, then the
  fetch, and then, if \<open>ConfigsEqual\<close> holds of the observed and the desired configuration,
  no further request; if not, exactly one PUT to the connector's configuration whose
  body is the desired configuration of the record.
\<close>

theorem Reconcile_drift_correction:
  assumes "k8s_get r req = Inr dbc"
    and "IsZero (DeletionTimestamp (Meta dbc))"
    and "ContainsFinalizer dbc debeziumFinalizer \<or>
         k8s_update r (AddFinalizer dbc debeziumFinalizer) = None"
    and "fst (connectorExists r (DebeziumHost (Spec dbc))
                (config_index (Config (Spec dbc)) ''name'')) = Inr True"
    and "fst (getDebeziumConnectorConfig r (DebeziumHost (Spec dbc))
                (config_index (Config (Spec dbc)) ''name'')) = Inr observed"
  shows "http_calls (snd (Reconcile r req)) =
           [connectorExists_request (DebeziumHost (Spec dbc))
              (config_index (Config (Spec dbc)) ''name''),
            getDebeziumConnectorConfig_request (DebeziumHost (Spec dbc))
              (config_index (Config (Spec dbc)) ''name'')] @
           (if ConfigsEqual observed (Config (Spec dbc)) then []
            else [\<lparr>Method = PUT,
                   URL = DebeziumHost (Spec dbc) @ ''/connectors/'' @
                         config_index (Config (Spec dbc)) ''name'' @ ''/config'',
                   ContentType = Some ''application/json'',
                   ReqBody = ConfigJSON (Config (Spec dbc))\<rparr>])"
  using assms
  by (auto simp: Reconcile_def split_beta updateDebeziumConnector_request_def
      split: if_splits option.splits sum.splits)

theorem Reconcile_drift_correction_witness:
  "http_calls (snd (Reconcile (example_env synced_record upstream_present example_config)
                      example_key)) =
     [\<lparr>Method = GET, URL = ''http://dbz:8083/connectors/c1'',
       ContentType = None, ReqBody = NoBody\<rparr>,
      \<lparr>Method = GET, URL = ''http://dbz:8083/connectors/c1/config'',
       ContentType = None, ReqBody = NoBody\<rparr>] \<and>
   http_calls (snd (Reconcile (example_env synced_record upstream_present drifted_config)
                      example_key)) =
     [\<lparr>Method = GET, URL = ''http://dbz:8083/connectors/c1'',
       ContentType = None, ReqBody = NoBody\<rparr>,
      \<lparr>Method = GET, URL = ''http://dbz:8083/connectors/c1/config'',
       ContentType = None, ReqBody = NoBody\<rparr>,
      \<lparr>Method = PUT, URL = ''http://dbz:8083/connectors/c1/config'',
       ContentType = Some ''application/json'', ReqBody = ConfigJSON example_config\<rparr>]"
proof -
  let ?N = "example_env synced_record upstream_present example_config"
  let ?U = "example_env synced_record upstream_present drifted_config"
  have z: "IsZero (DeletionTimestamp (Meta synced_record))"
    by (simp add: synced_record_def IsZero_def)
  have f: "ContainsFinalizer synced_record debeziumFinalizer \<or> k8s_update e
             (AddFinalizer synced_record debeziumFinalizer) = None" for e
    by (simp add: synced_record_def ContainsFinalizer_def)
  have x: "fst (connectorExists (example_env synced_record upstream_present c)
                  (DebeziumHost (Spec synced_record))
                  (config_index (Config (Spec synced_record)) ''name'')) = Inr True" for c
    by (simp add: connectorExists_def upstream_present_def)
  have o: "fst (getDebeziumConnectorConfig (example_env synced_record upstream_present c)
                  (DebeziumHost (Spec synced_record))
                  (config_index (Config (Spec synced_record)) ''name'')) = Inr c" for c
    by (simp add: getDebeziumConnectorConfig_def upstream_present_def)
  have gn: "k8s_get ?N example_key = Inr synced_record" by simp
  have gu: "k8s_get ?U example_key = Inr synced_record" by simp
  have ne: "drifted_config \<noteq> example_config"
    using drifted_not_equal by (simp add: ConfigsEqual_eq)
  show ?thesis
    using Reconcile_drift_correction [OF gn z f x o]
      Reconcile_drift_correction [OF gu z f x o] ne
    by (simp add: synced_record_def ConfigsEqual_eq
        connectorExists_request_def getDebeziumConnectorConfig_request_def)
qed

text \<open>
  C3. On a record that is not being deleted and lacks the finalizer, the first thing the
  pass does is write the record with the finalizer to the store. If the store refuses,
  the pass does nothing else; otherwise everything that follows is a request to the
  upstream, so no request (existence check or create) precedes the write, and nothing
  after it, a failed create included, takes the finalizer away.
\<close>

theorem Reconcile_finalizer_first:
  assumes "k8s_get r req = Inr dbc"
    and "IsZero (DeletionTimestamp (Meta dbc))"
    and "\<not> ContainsFinalizer dbc debeziumFinalizer"
  shows "\<exists>rest. snd (Reconcile r req) =
            K8sUpdate (AddFinalizer dbc debeziumFinalizer)
              (k8s_update r (AddFinalizer dbc debeziumFinalizer) = None) # rest \<and>
            ContainsFinalizer (AddFinalizer dbc debeziumFinalizer) debeziumFinalizer \<and>
            (k8s_update r (AddFinalizer dbc debeziumFinalizer) \<noteq> None \<longrightarrow> rest = []) \<and>
            list_all is_http rest"
  using assms
  by (auto simp: Reconcile_def split_beta ContainsFinalizer_def AddFinalizer_def
      split: if_splits option.splits sum.splits)

theorem Reconcile_finalizer_first_witness:
  "(\<exists>rest. snd (Reconcile (example_env fresh_record upstream_create_fails example_config) example_key) =
       K8sUpdate (AddFinalizer fresh_record debeziumFinalizer) True # rest \<and> list_all is_http rest) \<and>
   ContainsFinalizer (AddFinalizer fresh_record debeziumFinalizer) debeziumFinalizer \<and>
   fst (Reconcile (example_env fresh_record upstream_create_fails example_config) example_key) =
     Inl (Err ''failed to create connector, status: 500, body: boom'') \<and>
   snd (Reconcile conflict_env example_key) =
     [K8sUpdate (AddFinalizer fresh_record debeziumFinalizer) False]"
proof -
  let ?E = "example_env fresh_record upstream_create_fails example_config"
  have z: "IsZero (DeletionTimestamp (Meta fresh_record))"
    by (simp add: fresh_record_def IsZero_def)
  have f: "\<not> ContainsFinalizer fresh_record debeziumFinalizer"
    by (simp add: fresh_record_def ContainsFinalizer_def)
  have g: "k8s_get ?E example_key = Inr fresh_record"
    by simp
  have g': "k8s_get conflict_env example_key = Inr fresh_record"
    by (simp add: conflict_env_def)
  have u: "k8s_update ?E (AddFinalizer fresh_record debeziumFinalizer) = None"
    by simp
  have u': "k8s_update conflict_env (AddFinalizer fresh_record debeziumFinalizer) \<noteq> None"
    by (simp add: conflict_env_def)
  show ?thesis
    using Reconcile_finalizer_first [OF g z f] Reconcile_finalizer_first [OF g' z f] u u'
    by (auto simp: create_fails_pass)
qed

text \<open>
  C4. On a record marked for deletion with the finalizer present, if the delete call
  returns an error, the pass returns that error, has made the delete request only, and
  has written nothing to the store: the record keeps its finalizer.
\<close>

theorem Reconcile_delete_error_keeps_finalizer:
  assumes "k8s_get r req = Inr dbc"
    and "\<not> IsZero (DeletionTimestamp (Meta dbc))"
    and "ContainsFinalizer dbc debeziumFinalizer"
    and "fst (deleteDebeziumConnector r (DebeziumHost (Spec dbc))
                (config_index (Config (Spec dbc)) ''name'')) = Some err"
  shows "fst (Reconcile r req) = Inl err \<and>
         snd (Reconcile r req) =
           [HttpCall (deleteDebeziumConnector_request (DebeziumHost (Spec dbc))
                        (config_index (Config (Spec dbc)) ''name''))] \<and>
         k8s_updates (snd (Reconcile r req)) = []"
  using assms by (simp add: Reconcile_def split_beta)

theorem Reconcile_delete_error_keeps_finalizer_witness:
  "fst (Reconcile (example_env deleting_record upstream_broken example_config) example_key) =
     Inl (Err ''failed to delete connector, status: 500, body: boom'') \<and>
   snd (Reconcile (example_env deleting_record upstream_broken example_config) example_key) =
     [HttpCall \<lparr>Method = DELETE, URL = ''http://dbz:8083/connectors/c1'',
                ContentType = None, ReqBody = NoBody\<rparr>] \<and>
   k8s_updates
     (snd (Reconcile (example_env deleting_record upstream_broken example_config) example_key)) = []"
proof -
  let ?E = "example_env deleting_record upstream_broken example_config"
  have g: "k8s_get ?E example_key = Inr deleting_record"
    by simp
  have z: "\<not> IsZero (DeletionTimestamp (Meta deleting_record))"
    by (simp add: deleting_record_def IsZero_def)
  have f: "ContainsFinalizer deleting_record debeziumFinalizer"
    by (simp add: deleting_record_def ContainsFinalizer_def)
  have d: "fst (deleteDebeziumConnector ?E (DebeziumHost (Spec deleting_record))
                  (config_index (Config (Spec deleting_record)) ''name'')) =
           Some (Err ''failed to delete connector, status: 500, body: boom'')"
    by (simp add: deleteDebeziumConnector_def upstream_broken_def fmt_d_500)
  show ?thesis
    using Reconcile_delete_error_keeps_finalizer [OF g z f d]
    by (simp add: deleting_record_def deleteDebeziumConnector_request_def)
qed

text \<open>
  C6, what the code does. The claim says that every successful pass records the external
  phase in the status of the record. The pass never touches the status: every object it
  writes to the store carries the status the record was loaded with, and the status type
  has a list of conditions and no phase. The evaluation below is the first pass of the
  specification's scenario (connector absent, create accepted): it succeeds, and its one
  write, which adds the finalizer, leaves the status empty.
\<close>

theorem Reconcile_status_untouched:
  assumes "k8s_get r req = Inr dbc"
  shows "list_all (\<lambda>(d, ok). Status d = Status dbc) (k8s_updates (snd (Reconcile r req)))"
  using assms
  by (auto simp: Reconcile_def split_beta AddFinalizer_def RemoveFinalizer_def
      split: if_splits option.splits sum.splits)

theorem Reconcile_status_untouched_witness:
  "fst (Reconcile (example_env fresh_record upstream_absent example_config) example_key) =
     Inr \<lparr>Requeue = False, RequeueAfter = 60000000000\<rparr> \<and>
   k8s_updates (snd (Reconcile (example_env fresh_record upstream_absent example_config)
                       example_key)) =
     [(AddFinalizer fresh_record debeziumFinalizer, True)] \<and>
   Status (AddFinalizer fresh_record debeziumFinalizer) = \<lparr>Conditions = []\<rparr>"
proof -
  let ?E = "example_env fresh_record upstream_absent example_config"
  have g: "k8s_get ?E example_key = Inr fresh_record" by simp
  have s: "Status fresh_record = \<lparr>Conditions = []\<rparr>"
    by (simp add: fresh_record_def)
  show ?thesis
    using Reconcile_status_untouched [OF g] s
    by (simp add: create_pass)
qed

text \<open>
  C7, as the code contradicts it. The claim says that the validation gate rejects every
  record whose configuration lacks the key \<open>name\<close>. The later revision of the gate admits
  such a record when the upstream's validation endpoint answers 200 with a body, here the
  empty JSON object, that reports no error. A pass of the controller on that record then
  reads the empty string as the connector's name: against the same upstream it looks up,
  fetches and updates \<^verbatim>\<open>/connectors/\<close> and \<^verbatim>\<open>/connectors//config\<close>.
\<close>

theorem validateDebeziumConnector_admits_nameless_counterexample:
  "fmlookup (Config (Spec nameless_record)) ''name'' = None \<and>
   validateDebeziumConnector validating_env nameless_record =
     (None,
      [HttpCall \<lparr>Method = POST,
         URL = ''http://dbz:8083/connector-plugins/io.debezium.connector.mysql.MySqlConnector/config/validate'',
         ContentType = Some ''application/json'',
         ReqBody = ConnectorJSON [] nameless_config\<rparr>]) \<and>
   http_calls (snd (Reconcile validating_env example_key)) =
     [\<lparr>Method = GET, URL = ''http://dbz:8083/connectors/'',
       ContentType = None, ReqBody = NoBody\<rparr>,
      \<lparr>Method = GET, URL = ''http://dbz:8083/connectors//config'',
       ContentType = None, ReqBody = NoBody\<rparr>,
      \<lparr>Method = PUT, URL = ''http://dbz:8083/connectors//config'',
       ContentType = Some ''application/json'', ReqBody = ConfigJSON nameless_config\<rparr>]"
proof -
  have "fmlookup (Config (Spec nameless_record)) ''name'' = None"
    by (simp add: nameless_record_def nameless_config_def)
  then show ?thesis
    by (simp add: nameless_admitted nameless_pass)
qed

text \<open>
  C7, amended. The later revision of the gate rejects, without a request to the upstream,
  every record whose host is empty or whose configuration lacks \<open>connector.class\<close>; the
  earlier revision, with local checks only, rejects every record whose configuration
  lacks \<open>name\<close>. In the later revision a record with a host and a connector class is
  admitted whenever the validation endpoint answers 200 with a readable body that
  reports no error, whether or not it has a \<open>name\<close>. The controller does not validate
  again: on a record without \<open>name\<close> it takes the empty string as the connector's name,
  so that its first request is the existence check (on a live record, once the finalizer
  is in place) or the delete call (on a record marked for deletion that holds the
  finalizer) addressed to the host's \<^verbatim>\<open>/connectors/\<close>.
\<close>

theorem validateDebeziumConnector_gate:
  "(DebeziumHost (Spec d) = [] \<or> fmlookup (Config (Spec d)) ''connector.class'' = None \<longrightarrow>
      (\<exists>errs. errs \<noteq> [] \<and>
         validateDebeziumConnector e d = (Some (StatusInvalid (Name (Meta d)) errs), []))) \<and>
   (fmlookup (Config (Spec d)) ''name'' = None \<longrightarrow>
      (\<exists>errs. errs \<noteq> [] \<and>
         validateDebeziumConnector_rev1 d = Some (StatusInvalid (Name (Meta d)) errs))) \<and>
   (DebeziumHost (Spec d) \<noteq> [] \<and> fmlookup (Config (Spec d)) ''connector.class'' = Some c \<and>
    http_do e (validate_request (DebeziumHost (Spec d)) c (Config (Spec d))) = Response resp \<and>
    BodyErr resp = None \<and> StatusCode resp = 200 \<and>
    unmarshal_errors e (Body resp) = Inr fmempty \<longrightarrow>
      fst (validateDebeziumConnector e d) = None) \<and>
   (fmlookup (Config (Spec d)) ''name'' = None \<and> k8s_get e req = Inr d \<and>
    IsZero (DeletionTimestamp (Meta d)) \<and>
    (ContainsFinalizer d debeziumFinalizer \<or>
     k8s_update e (AddFinalizer d debeziumFinalizer) = None) \<longrightarrow>
      (\<exists>rest. http_calls (snd (Reconcile e req)) =
         \<lparr>Method = GET, URL = DebeziumHost (Spec d) @ ''/connectors/'',
          ContentType = None, ReqBody = NoBody\<rparr> # rest)) \<and>
   (fmlookup (Config (Spec d)) ''name'' = None \<and> k8s_get e req = Inr d \<and>
    \<not> IsZero (DeletionTimestamp (Meta d)) \<and> ContainsFinalizer d debeziumFinalizer \<longrightarrow>
      (\<exists>rest. http_calls (snd (Reconcile e req)) =
         \<lparr>Method = DELETE, URL = DebeziumHost (Spec d) @ ''/connectors/'',
          ContentType = None, ReqBody = NoBody\<rparr> # rest))"
proof (intro conjI impI)
  assume "DebeziumHost (Spec d) = [] \<or> fmlookup (Config (Spec d)) ''connector.class'' = None"
  then show "\<exists>errs. errs \<noteq> [] \<and>
         validateDebeziumConnector e d = (Some (StatusInvalid (Name (Meta d)) errs), [])"
    by (auto simp: validateDebeziumConnector_def Let_def split: option.splits)
next
  assume n: "fmlookup (Config (Spec d)) ''name'' = None"
  have "requiredKeys_range [''name'', ''connector.class''] (Config (Spec d)) a \<noteq> []" for a
    using n by (simp split: option.splits)
  then show "\<exists>errs. errs \<noteq> [] \<and>
         validateDebeziumConnector_rev1 d = Some (StatusInvalid (Name (Meta d)) errs)"
    by (simp add: validateDebeziumConnector_rev1_def Let_def)
next
  assume "DebeziumHost (Spec d) \<noteq> [] \<and> fmlookup (Config (Spec d)) ''connector.class'' = Some c \<and>
    http_do e (validate_request (DebeziumHost (Spec d)) c (Config (Spec d))) = Response resp \<and>
    BodyErr resp = None \<and> StatusCode resp = 200 \<and>
    unmarshal_errors e (Body resp) = Inr fmempty"
  then show "fst (validateDebeziumConnector e d) = None"
    by (simp add: validateDebeziumConnector_def Let_def config_index_def
        sorted_list_of_fmap_empty)
next
  assume a: "fmlookup (Config (Spec d)) ''name'' = None \<and> k8s_get e req = Inr d \<and>
    IsZero (DeletionTimestamp (Meta d)) \<and>
    (ContainsFinalizer d debeziumFinalizer \<or>
     k8s_update e (AddFinalizer d debeziumFinalizer) = None)"
  then have n: "config_index (Config (Spec d)) ''name'' = []"
    by (simp add: config_index_def)
  show "\<exists>rest. http_calls (snd (Reconcile e req)) =
         \<lparr>Method = GET, URL = DebeziumHost (Spec d) @ ''/connectors/'',
          ContentType = None, ReqBody = NoBody\<rparr> # rest"
    using a n
    by (auto simp: Reconcile_def split_beta connectorExists_request_def
        split: if_splits option.splits sum.splits)
next
  assume a: "fmlookup (Config (Spec d)) ''name'' = None \<and> k8s_get e req = Inr d \<and>
    \<not> IsZero (DeletionTimestamp (Meta d)) \<and> ContainsFinalizer d debeziumFinalizer"
  then have n: "config_index (Config (Spec d)) ''name'' = []"
    by (simp add: config_index_def)
  show "\<exists>rest. http_calls (snd (Reconcile e req)) =
         \<lparr>Method = DELETE, URL = DebeziumHost (Spec d) @ ''/connectors/'',
          ContentType = None, ReqBody = NoBody\<rparr> # rest"
    using a n
    by (auto simp: Reconcile_def split_beta deleteDebeziumConnector_request_def
        split: if_splits option.splits sum.splits)
qed

theorem validateDebeziumConnector_gate_witness:
  "(\<exists>errs. errs \<noteq> [] \<and>
      validateDebeziumConnector (example_env classless_record upstream_validates example_config)
        classless_record = (Some (StatusInvalid ''c1-record'' errs), [])) \<and>
   (\<exists>errs. errs \<noteq> [] \<and>
      validateDebeziumConnector_rev1 nameless_record = Some (StatusInvalid ''c1-record'' errs)) \<and>
   fst (validateDebeziumConnector validating_env nameless_record) = None \<and>
   (\<exists>rest. http_calls (snd (Reconcile validating_env example_key)) =
      \<lparr>Method = GET, URL = ''http://dbz:8083/connectors/'',
       ContentType = None, ReqBody = NoBody\<rparr> # rest) \<and>
   (\<exists>rest. http_calls (snd (Reconcile
        (example_env (example_record (Some 1700000000) [debeziumFinalizer] nameless_config)
           upstream_validates example_config) example_key)) =
      \<lparr>Method = DELETE, URL = ''http://dbz:8083/connectors/'',
       ContentType = None, ReqBody = NoBody\<rparr> # rest)"
proof -
  let ?C = "example_env classless_record upstream_validates example_config"
  let ?D = "example_record (Some 1700000000) [debeziumFinalizer] nameless_config"
  let ?DE = "example_env ?D upstream_validates example_config"
  let ?r = "\<lparr>StatusCode = 200, Body = ''{}'', BodyErr = None\<rparr>"
  have a: "fmlookup (Config (Spec classless_record)) ''connector.class'' = None"
    by (simp add: classless_record_def classless_config_def)
  have b: "fmlookup (Config (Spec nameless_record)) ''name'' = None"
    by (simp add: nameless_record_def nameless_config_def)
  have c: "DebeziumHost (Spec nameless_record) \<noteq> [] \<and>
     fmlookup (Config (Spec nameless_record)) ''connector.class'' =
       Some ''io.debezium.connector.mysql.MySqlConnector'' \<and>
     http_do validating_env (validate_request (DebeziumHost (Spec nameless_record))
        ''io.debezium.connector.mysql.MySqlConnector'' (Config (Spec nameless_record))) =
       Response ?r \<and>
     BodyErr ?r = None \<and> StatusCode ?r = 200 \<and>
     unmarshal_errors validating_env (Body ?r) = Inr fmempty"
    by (simp add: nameless_record_def nameless_config_def validating_env_def
        upstream_validates_def decode_empty_object_def)
  have l: "fmlookup (Config (Spec nameless_record)) ''name'' = None \<and>
     k8s_get validating_env example_key = Inr nameless_record \<and>
     IsZero (DeletionTimestamp (Meta nameless_record)) \<and>
     (ContainsFinalizer nameless_record debeziumFinalizer \<or>
      k8s_update validating_env (AddFinalizer nameless_record debeziumFinalizer) = None)"
    by (simp add: nameless_record_def nameless_config_def validating_env_def IsZero_def)
  have g: "fmlookup (Config (Spec ?D)) ''name'' = None \<and> k8s_get ?DE example_key = Inr ?D \<and>
     \<not> IsZero (DeletionTimestamp (Meta ?D)) \<and> ContainsFinalizer ?D debeziumFinalizer"
    by (simp add: nameless_config_def IsZero_def ContainsFinalizer_def)
  have n1: "Name (Meta classless_record) = ''c1-record''"
    by (simp add: classless_record_def)
  have n2: "Name (Meta nameless_record) = ''c1-record''"
    by (simp add: nameless_record_def)
  have h1: "DebeziumHost (Spec nameless_record) = ''http://dbz:8083''"
    by (simp add: nameless_record_def)
  have h2: "DebeziumHost (Spec ?D) = ''http://dbz:8083''"
    by simp
  have "\<exists>errs. errs \<noteq> [] \<and>
      validateDebeziumConnector ?C classless_record = (Some (StatusInvalid ''c1-record'' errs), [])"
    using validateDebeziumConnector_gate [of classless_record ?C] a n1 by simp
  moreover have "\<exists>errs. errs \<noteq> [] \<and>
      validateDebeziumConnector_rev1 nameless_record = Some (StatusInvalid ''c1-record'' errs)"
    using validateDebeziumConnector_gate [of nameless_record] b n2 by simp
  moreover have "fst (validateDebeziumConnector validating_env nameless_record) = None"
    using validateDebeziumConnector_gate
            [of nameless_record validating_env
                "''io.debezium.connector.mysql.MySqlConnector''" ?r] c
    by blast
  moreover have "\<exists>rest. http_calls (snd (Reconcile validating_env example_key)) =
      \<lparr>Method = GET, URL = ''http://dbz:8083/connectors/'',
       ContentType = None, ReqBody = NoBody\<rparr> # rest"
    using validateDebeziumConnector_gate [of nameless_record validating_env _ _ example_key] l h1
    by simp
  moreover have "\<exists>rest. http_calls (snd (Reconcile ?DE example_key)) =
      \<lparr>Method = DELETE, URL = ''http://dbz:8083/connectors/'',
       ContentType = None, ReqBody = NoBody\<rparr> # rest"
    using validateDebeziumConnector_gate [of ?D ?DE _ _ example_key] g h2
    by simp
  ultimately show ?thesis
    by blast
qed

text \<open>
  C9. When the record exists and the pass succeeds: if the record is not being deleted
  (connector created, updated, or left as it is), the pass asks to be run again after 60
  seconds; if it is being deleted, the pass asks for no requeue.
\<close>

theorem Reconcile_requeue:
  assumes "k8s_get r req = Inr dbc" and "fst (Reconcile r req) = Inr res"
  shows "(IsZero (DeletionTimestamp (Meta dbc)) \<longrightarrow>
            res = \<lparr>Requeue = False, RequeueAfter = 60 * Second\<rparr>) \<and>
         (\<not> IsZero (DeletionTimestamp (Meta dbc)) \<longrightarrow>
            res = \<lparr>Requeue = False, RequeueAfter = 0\<rparr>)"
  using assms
  by (auto simp: Reconcile_def split_beta Result_zero_def
      split: if_splits option.splits sum.splits)

theorem Reconcile_requeue_witness:
  "fst (Reconcile (example_env fresh_record upstream_absent example_config) example_key) =
     Inr \<lparr>Requeue = False, RequeueAfter = 60 * Second\<rparr> \<and>
   fst (Reconcile (example_env synced_record upstream_present example_config) example_key) =
     Inr \<lparr>Requeue = False, RequeueAfter = 60 * Second\<rparr> \<and>
   fst (Reconcile (example_env synced_record upstream_present drifted_config) example_key) =
     Inr \<lparr>Requeue = False, RequeueAfter = 60 * Second\<rparr> \<and>
   fst (Reconcile (example_env deleting_record upstream_present example_config) example_key) =
     Inr \<lparr>Requeue = False, RequeueAfter = 0\<rparr>"
proof -
  let ?C = "example_env fresh_record upstream_absent example_config"
  let ?N = "example_env synced_record upstream_present example_config"
  let ?U = "example_env synced_record upstream_present drifted_config"
  let ?D = "example_env deleting_record upstream_present example_config"
  have zf: "IsZero (DeletionTimestamp (Meta fresh_record))"
    by (simp add: fresh_record_def IsZero_def)
  have zs: "IsZero (DeletionTimestamp (Meta synced_record))"
    by (simp add: synced_record_def IsZero_def)
  have zd: "\<not> IsZero (DeletionTimestamp (Meta deleting_record))"
    by (simp add: deleting_record_def IsZero_def)
  obtain c where c: "fst (Reconcile ?C example_key) = Inr c"
    by (simp add: create_pass)
  obtain n where n: "fst (Reconcile ?N example_key) = Inr n"
    by (simp add: noop_pass)
  obtain u where u: "fst (Reconcile ?U example_key) = Inr u"
    by (simp add: update_pass)
  obtain d where d: "fst (Reconcile ?D example_key) = Inr d"
    by (simp add: delete_pass)
  have "c = \<lparr>Requeue = False, RequeueAfter = 60 * Second\<rparr>"
    using Reconcile_requeue [of ?C example_key fresh_record c] c zf by simp
  moreover have "n = \<lparr>Requeue = False, RequeueAfter = 60 * Second\<rparr>"
    using Reconcile_requeue [of ?N example_key synced_record n] n zs by simp
  moreover have "u = \<lparr>Requeue = False, RequeueAfter = 60 * Second\<rparr>"
    using Reconcile_requeue [of ?U example_key synced_record u] u zs by simp
  moreover have "d = \<lparr>Requeue = False, RequeueAfter = 0\<rparr>"
    using Reconcile_requeue [of ?D example_key deleting_record d] d zd by simp
  ultimately show ?thesis
    using c n u d by simp
qed

end
